theory Spec2Isabelle
  imports Complex_Main
begin

section \<open>Values exchanged with the automation engine and the socket\<close>

text \<open>
  A page handle is an opaque reference owned by the automation engine; the dispatcher
  only stores it, looks it up and hands it back to engine calls.
\<close>

type_synonym page = nat

text \<open>
  A node of the accessibility tree (\<open>SerializedAXNode\<close>): its own properties, kept as
  one label, and the optional field \<open>children\<close>. \<open>None\<close> is a node without the
  field; \<open>Some []\<close> is a node whose field holds the empty array.
\<close>

datatype axnode = AXNode (label: string) (children: "axnode list option")

text \<open>
  The values handlers return and the socket serialises. \<open>JUndefined\<close> is the result
  of a handler that falls off its end; \<open>JNode\<close> carries an accessibility node as the
  engine built it.
\<close>

datatype json =
    JUndefined
  | JString string
  | JBool bool
  | JNode axnode
  | JArray "json list"
  | JObject "(string \<times> json) list"

text \<open>An awaited call either throws (or rejects) or returns a value.\<close>

datatype 'a outcome = Throws | Returns 'a

section \<open>observe: flattening the accessibility snapshot\<close>

text \<open>
  \<open>recurseChildren\<close> pushes onto the shared array \<open>items\<close>; the model passes the
  array in and returns it. The guard \<open>!node.children\<close> tests the field for
  truthiness, and every array, the empty one too, is truthy: only a node without the
  field returns early. The nested calls contain no suspension point, so they run to
  completion in the order of the loop.
\<close>

fun recurseChildren :: "axnode \<Rightarrow> axnode list \<Rightarrow> axnode list" where
  "recurseChildren (AXNode l None) items = items"
| "recurseChildren (AXNode l (Some cs)) items =
     fold recurseChildren cs (items @ [AXNode l (Some cs)])"

text \<open>
  The reading of the specification, for comparison: every node of the tree in pre-order
  (parent before children, children left to right), and the two readings of
  "has children".
\<close>

fun preorder :: "axnode \<Rightarrow> axnode list" where
  "preorder (AXNode l None) = [AXNode l None]"
| "preorder (AXNode l (Some cs)) = AXNode l (Some cs) # concat (map preorder cs)"

fun has_children_field :: "axnode \<Rightarrow> bool" where
  "has_children_field (AXNode l None) = False"
| "has_children_field (AXNode l (Some cs)) = True"

fun has_a_child :: "axnode \<Rightarrow> bool" where
  "has_a_child (AXNode l None) = False"
| "has_a_child (AXNode l (Some cs)) = (cs \<noteq> [])"

text \<open>The synthetic tree \<open>A(children=[B(children=[]), C(children=[D])])\<close>.\<close>

definition node_D :: axnode where "node_D = AXNode ''D'' None"
definition node_C :: axnode where "node_C = AXNode ''C'' (Some [node_D])"
definition node_B :: axnode where "node_B = AXNode ''B'' (Some [])"
definition node_A :: axnode where "node_A = AXNode ''A'' (Some [node_B, node_C])"

section \<open>The page registry\<close>

text \<open>
  \<open>openPages\<close> is a plain object used as a dictionary. Its own properties are the
  bindings made by the program: a map from identifier to page handle. A property read
  \<open>openPages[id]\<close> that finds no own property continues in \<open>Object.prototype\<close>,
  whose properties every object literal inherits; the values found there are functions
  (for \<open>__proto__\<close> the prototype object itself): truthy, and none of them a page.
\<close>

definition object_prototype_keys :: "string list" where
  "object_prototype_keys =
     [''constructor'', ''__defineGetter__'', ''__defineSetter__'', ''hasOwnProperty'',
      ''__lookupGetter__'', ''__lookupSetter__'', ''isPrototypeOf'',
      ''propertyIsEnumerable'', ''toString'', ''valueOf'', ''__proto__'',
      ''toLocaleString'']"

datatype jsvalue = PageV page | Inherited

text \<open>The property read \<open>openPages[id]\<close>; \<open>None\<close> is \<open>undefined\<close>.\<close>

definition lookup :: "(string \<rightharpoonup> page) \<Rightarrow> string \<Rightarrow> jsvalue option" where
  "lookup m k =
     (case m k of
        Some p \<Rightarrow> Some (PageV p)
      | None \<Rightarrow> if k \<in> set object_prototype_keys then Some Inherited else None)"

section \<open>The automation engine\<close>

text \<open>
  The engine is an external collaborator. Every call the program makes on it is recorded
  in a log, and what a call does (throw, or return a value) may depend on the calls made
  before it: each operation receives the log so far.
\<close>

datatype engine_call =
    Launch
  | Pages
  | NewPage
  | Goto page string
  | Content page
  | PageClick page string
  | PageType page string string nat
  | KeyboardType page string
  | KeyboardPress page string
  | MouseClick page real real
  | MouseMove page real real
  | Screenshot page
  | Evaluate page
  | AXSnapshot page

record engine =
  e_launch :: "engine_call list \<Rightarrow> unit outcome"
  e_pages :: "engine_call list \<Rightarrow> page list outcome"
  e_newPage :: "engine_call list \<Rightarrow> page outcome"
  e_goto :: "engine_call list \<Rightarrow> page \<Rightarrow> string \<Rightarrow> unit outcome"
  e_content :: "engine_call list \<Rightarrow> page \<Rightarrow> string outcome"
  e_click :: "engine_call list \<Rightarrow> page \<Rightarrow> string \<Rightarrow> unit outcome"
  e_type :: "engine_call list \<Rightarrow> page \<Rightarrow> string \<Rightarrow> string \<Rightarrow> nat \<Rightarrow> unit outcome"
  e_keyboard_type :: "engine_call list \<Rightarrow> page \<Rightarrow> string \<Rightarrow> unit outcome"
  e_keyboard_press :: "engine_call list \<Rightarrow> page \<Rightarrow> string \<Rightarrow> unit outcome"
  e_mouse_click :: "engine_call list \<Rightarrow> page \<Rightarrow> real \<Rightarrow> real \<Rightarrow> unit outcome"
  e_mouse_move :: "engine_call list \<Rightarrow> page \<Rightarrow> real \<Rightarrow> real \<Rightarrow> unit outcome"
  e_screenshot :: "engine_call list \<Rightarrow> page \<Rightarrow> string outcome"
  e_evaluate :: "engine_call list \<Rightarrow> page \<Rightarrow> json outcome"
  e_snapshot :: "engine_call list \<Rightarrow> page \<Rightarrow> axnode option outcome"

section \<open>Program state and requests\<close>

text \<open>
  The module-level state: the registry \<open>openPages\<close>, whether the variable \<open>b\<close> has
  been assigned the launched browser, and the log of engine calls. For the connection
  under consideration: the values handed to \<open>socket.send(JSON.stringify(...))\<close> in
  order, the number of rejected dispatch promises (nothing handles them, so no reply is
  sent for them), and whether the socket is open.
\<close>

record world =
  openPages :: "string \<rightharpoonup> page"
  browser :: bool
  calls :: "engine_call list"
  outbox :: "json list"
  unhandled :: nat
  socket_open :: bool

text \<open>
  A decoded request. The union \<open>Message\<close> is flattened into one record: the
  discriminant \<open>message\<close>, the identifier \<open>pageId\<close>, and the fields of the variants;
  a variant does not read the fields of the others. The optional flags \<open>enter\<close> and
  \<open>click\<close> are \<open>None\<close> when omitted.
\<close>

record request =
  req_message :: string
  req_pageId :: string
  req_selector :: string
  req_text :: string
  req_url :: string
  req_x :: real
  req_y :: real
  req_enter :: "bool option"
  req_click :: "bool option"

definition truthy :: "bool option \<Rightarrow> bool" where
  "truthy flag = (flag = Some True)"

definition error_payload :: "string \<Rightarrow> json" where
  "error_payload msg = JObject [(''error'', JString msg)]"

definition log_call :: "engine_call \<Rightarrow> world \<Rightarrow> world" where
  "log_call c st = st\<lparr>calls := calls st @ [c]\<rparr>"

section \<open>Startup\<close>

text \<open>
  The start-up task launches the browser, assigns \<open>b\<close>, and binds \<open>default\<close> to the
  first page the browser reports. Nothing catches a failure of either call. With no
  page reported, \<open>pages[0]\<close> is \<open>undefined\<close>, and a property holding
  \<open>undefined\<close> reads like one that is absent.
\<close>

definition startup :: "engine \<Rightarrow> world \<Rightarrow> world outcome" where
  "startup eng st =
     (case e_launch eng (calls st) of
        Throws \<Rightarrow> Throws
      | Returns _ \<Rightarrow>
          (let st1 = (log_call Launch st)\<lparr>browser := True\<rparr> in
           case e_pages eng (calls st1) of
             Throws \<Rightarrow> Throws
           | Returns ps \<Rightarrow>
               (case ps of
                  [] \<Rightarrow>
                    Returns ((log_call Pages st1)
                      \<lparr>openPages := (openPages st1)(''default'' := None)\<rparr>)
                | p # _ \<Rightarrow>
                    Returns ((log_call Pages st1)
                      \<lparr>openPages := (openPages st1)(''default'' \<mapsto> p)\<rparr>))))"

section \<open>Command handlers\<close>

text \<open>
  A handler returns the outcome of its promise and the state it leaves. A method call on
  a value that is not a page (\<open>undefined\<close> or an inherited property) throws a
  \<open>TypeError\<close> before any engine call is made: inside a \<open>try\<close> it is caught like an
  engine failure, elsewhere it rejects the promise.
\<close>

definition observe :: "engine \<Rightarrow> request \<Rightarrow> world \<Rightarrow> json outcome \<times> world" where
  "observe eng req st =
     (case lookup (openPages st) (req_pageId req) of
        Some (PageV p) \<Rightarrow>
          (case e_snapshot eng (calls st) p of
             Throws \<Rightarrow> (Throws, log_call (AXSnapshot p) st)
           | Returns None \<Rightarrow>
               (Returns (error_payload ''No snapshot available''), log_call (AXSnapshot p) st)
           | Returns (Some snapshot) \<Rightarrow>
               (Returns (JObject [(''snapshot'', JArray (map JNode (recurseChildren snapshot [])))]),
                log_call (AXSnapshot p) st))
      | _ \<Rightarrow> (Throws, st))"

definition getInteractiveElements ::
  "engine \<Rightarrow> request \<Rightarrow> world \<Rightarrow> json outcome \<times> world" where
  "getInteractiveElements eng req st =
     (case lookup (openPages st) (req_pageId req) of
        Some (PageV p) \<Rightarrow>
          (case e_evaluate eng (calls st) p of
             Throws \<Rightarrow> (Throws, log_call (Evaluate p) st)
           | Returns items \<Rightarrow> (Returns (JObject [(''items'', items)]), log_call (Evaluate p) st))
      | _ \<Rightarrow> (Throws, st))"

definition typeText :: "engine \<Rightarrow> request \<Rightarrow> world \<Rightarrow> json outcome \<times> world" where
  "typeText eng req st =
     (case lookup (openPages st) (req_pageId req) of
        Some (PageV p) \<Rightarrow>
          (let st1 = log_call (KeyboardType p (req_text req)) st in
           case e_keyboard_type eng (calls st) p (req_text req) of
             Throws \<Rightarrow> (Returns (error_payload ''Could not type''), st1)
           | Returns _ \<Rightarrow>
               if truthy (req_enter req) then
                 (case e_keyboard_press eng (calls st1) p ''Enter'' of
                    Throws \<Rightarrow>
                      (Returns (error_payload ''Could not type''),
                       log_call (KeyboardPress p ''Enter'') st1)
                  | Returns _ \<Rightarrow> (Returns JUndefined, log_call (KeyboardPress p ''Enter'') st1))
               else (Returns JUndefined, st1))
      | _ \<Rightarrow> (Returns (error_payload ''Could not type''), st))"

definition moveMouse :: "engine \<Rightarrow> request \<Rightarrow> world \<Rightarrow> json outcome \<times> world" where
  "moveMouse eng req st =
     (case lookup (openPages st) (req_pageId req) of
        Some (PageV p) \<Rightarrow>
          if truthy (req_click req) then
            (case e_mouse_click eng (calls st) p (req_x req) (req_y req) of
               Throws \<Rightarrow>
                 (Returns (error_payload ''Could not move mouse''),
                  log_call (MouseClick p (req_x req) (req_y req)) st)
             | Returns _ \<Rightarrow>
                 (Returns JUndefined, log_call (MouseClick p (req_x req) (req_y req)) st))
          else
            (case e_mouse_move eng (calls st) p (req_x req) (req_y req) of
               Throws \<Rightarrow>
                 (Returns (error_payload ''Could not move mouse''),
                  log_call (MouseMove p (req_x req) (req_y req)) st)
             | Returns _ \<Rightarrow>
                 (Returns JUndefined, log_call (MouseMove p (req_x req) (req_y req)) st))
      | _ \<Rightarrow> (Returns (error_payload ''Could not move mouse''), st))"

definition click :: "engine \<Rightarrow> request \<Rightarrow> world \<Rightarrow> json outcome \<times> world" where
  "click eng req st =
     (case lookup (openPages st) (req_pageId req) of
        Some (PageV p) \<Rightarrow>
          (case e_click eng (calls st) p (req_selector req) of
             Throws \<Rightarrow>
               (Returns (error_payload ''Error while executing click''),
                log_call (PageClick p (req_selector req)) st)
           | Returns _ \<Rightarrow>
               (Returns (JObject [(''success'', JBool True)]),
                log_call (PageClick p (req_selector req)) st))
      | _ \<Rightarrow> (Returns (error_payload ''Error while executing click''), st))"

definition inputText :: "engine \<Rightarrow> request \<Rightarrow> world \<Rightarrow> json outcome \<times> world" where
  "inputText eng req st =
     (case lookup (openPages st) (req_pageId req) of
        Some (PageV p) \<Rightarrow>
          (let st1 = log_call (PageType p (req_selector req) (req_text req) 100) st in
           case e_type eng (calls st) p (req_selector req) (req_text req) 100 of
             Throws \<Rightarrow> (Returns (error_payload ''Error while typing''), st1)
           | Returns _ \<Rightarrow>
               if truthy (req_enter req) then
                 (case e_keyboard_press eng (calls st1) p ''Enter'' of
                    Throws \<Rightarrow>
                      (Returns (error_payload ''Error while typing''),
                       log_call (KeyboardPress p ''Enter'') st1)
                  | Returns _ \<Rightarrow> (Returns JUndefined, log_call (KeyboardPress p ''Enter'') st1))
               else (Returns JUndefined, st1))
      | _ \<Rightarrow> (Returns (error_payload ''Error while typing''), st))"

text \<open>\<open>getHtml\<close> has no \<open>try\<close>: it returns the engine's promise as it is.\<close>

definition getHtml :: "engine \<Rightarrow> request \<Rightarrow> world \<Rightarrow> json outcome \<times> world" where
  "getHtml eng req st =
     (case lookup (openPages st) (req_pageId req) of
        Some (PageV p) \<Rightarrow>
          (case e_content eng (calls st) p of
             Throws \<Rightarrow> (Throws, log_call (Content p) st)
           | Returns html \<Rightarrow> (Returns (JString html), log_call (Content p) st))
      | _ \<Rightarrow> (Throws, st))"

text \<open>
  \<open>createPage\<close> tests the same property read for truthiness. Past the test, \<open>b.newPage()\<close>
  is outside any \<open>try\<close>, and throws at once while \<open>b\<close> is unassigned.
\<close>

definition createPage :: "engine \<Rightarrow> request \<Rightarrow> world \<Rightarrow> json outcome \<times> world" where
  "createPage eng req st =
     (case lookup (openPages st) (req_pageId req) of
        Some _ \<Rightarrow> (Returns (error_payload ''Page already exists''), st)
      | None \<Rightarrow>
          if \<not> browser st then (Throws, st)
          else
            (case e_newPage eng (calls st) of
               Throws \<Rightarrow> (Throws, log_call NewPage st)
             | Returns p \<Rightarrow>
                 (Returns JUndefined,
                  (log_call NewPage st)\<lparr>openPages := (openPages st)(req_pageId req \<mapsto> p)\<rparr>)))"

definition navigate :: "engine \<Rightarrow> request \<Rightarrow> world \<Rightarrow> json outcome \<times> world" where
  "navigate eng req st =
     (case lookup (openPages st) (req_pageId req) of
        Some (PageV p) \<Rightarrow>
          (case e_goto eng (calls st) p (req_url req) of
             Throws \<Rightarrow>
               (Returns (error_payload ''Error while navigating''),
                log_call (Goto p (req_url req)) st)
           | Returns _ \<Rightarrow> (Returns JUndefined, log_call (Goto p (req_url req)) st))
      | _ \<Rightarrow> (Returns (error_payload ''Error while navigating''), st))"

definition getScreenshot :: "engine \<Rightarrow> request \<Rightarrow> world \<Rightarrow> json outcome \<times> world" where
  "getScreenshot eng req st =
     (case lookup (openPages st) (req_pageId req) of
        Some (PageV p) \<Rightarrow>
          (case e_screenshot eng (calls st) p of
             Throws \<Rightarrow>
               (Returns (error_payload ''Error while taking screenshot''),
                log_call (Screenshot p) st)
           | Returns data \<Rightarrow>
               (Returns (JObject [(''screenshot'', JString data)]), log_call (Screenshot p) st))
      | _ \<Rightarrow> (Returns (error_payload ''Error while taking screenshot''), st))"

section \<open>The dispatcher\<close>

definition known_commands :: "string list" where
  "known_commands =
     [''create_page'', ''navigate'', ''get_html'', ''click'', ''input_text'', ''type_text'',
      ''move_mouse'', ''get_screenshot'', ''get_interactive_elements'', ''observe'']"

text \<open>
  \<open>messageSwitch\<close> reads \<open>openPages[req.pageId]\<close> and tests it for truthiness before
  the \<open>switch\<close>, for every request; the cases follow in the order of the source.
\<close>

definition messageSwitch :: "engine \<Rightarrow> request \<Rightarrow> world \<Rightarrow> json outcome \<times> world" where
  "messageSwitch eng req st =
     (case lookup (openPages st) (req_pageId req) of
        None \<Rightarrow> (Returns (error_payload ''Page with requested pageId not found''), st)
      | Some _ \<Rightarrow>
          if req_message req = ''observe'' then observe eng req st
          else if req_message req = ''get_interactive_elements''
            then getInteractiveElements eng req st
          else if req_message req = ''type_text'' then typeText eng req st
          else if req_message req = ''get_screenshot'' then getScreenshot eng req st
          else if req_message req = ''create_page'' then createPage eng req st
          else if req_message req = ''navigate'' then navigate eng req st
          else if req_message req = ''get_html'' then getHtml eng req st
          else if req_message req = ''click'' then click eng req st
          else if req_message req = ''input_text'' then inputText eng req st
          else if req_message req = ''move_mouse'' then moveMouse eng req st
          else (Returns (error_payload ''No message found''), st))"

text \<open>A sequence of requests dispatched one after the other, each run to completion.\<close>

definition dispatch_all :: "engine \<Rightarrow> request list \<Rightarrow> world \<Rightarrow> world" where
  "dispatch_all eng reqs st = fold (\<lambda>req s. snd (messageSwitch eng req s)) reqs st"

section \<open>The socket handlers\<close>

definition send :: "json \<Rightarrow> world \<Rightarrow> world" where
  "send v st = st\<lparr>outbox := outbox st @ [v]\<rparr>"

definition browser_status :: "string \<Rightarrow> json" where
  "browser_status s = JObject [(''messge'', JString ''browser_status''), (''status'', JString s)]"

text \<open>A client connects: the socket is open and has sent nothing yet.\<close>

definition on_connection :: "world \<Rightarrow> world" where
  "on_connection st =
     (let st1 = st\<lparr>outbox := [], socket_open := True\<rparr> in
      if browser st1 then send (browser_status ''up'') st1
      else send (browser_status ''down'') st1)"

text \<open>
  The \<open>message\<close> handler. \<open>JSON.parse\<close> belongs to the platform and is a parameter:
  it throws on text that does not decode, and its result is taken at the declared type of
  a request. The \<open>catch\<close> covers the decoding alone: the dispatch is asynchronous, and a
  rejected dispatch promise has no handler. Each message is run to completion before the
  next.
\<close>

definition on_message ::
  "(string \<Rightarrow> request outcome) \<Rightarrow> engine \<Rightarrow> string \<Rightarrow> world \<Rightarrow> world" where
  "on_message JSON_parse eng data st =
     (case JSON_parse data of
        Throws \<Rightarrow> send (error_payload ''Error while parsing JSON'') st
      | Returns req \<Rightarrow>
          (case messageSwitch eng req st of
             (Returns res, st') \<Rightarrow> send res st'
           | (Throws, st') \<Rightarrow> st'\<lparr>unhandled := Suc (unhandled st')\<rparr>))"

text \<open>The value a client finds under a key of a reply object.\<close>

fun member :: "json \<Rightarrow> string \<Rightarrow> json option" where
  "member (JObject kvs) k = map_of kvs k"
| "member _ k = None"

section \<open>Fixtures\<close>

text \<open>
  Two fake engines: one on which every call succeeds (a new page gets the length of the
  log as its handle, the snapshot is the synthetic tree), one on which every call throws.
\<close>

definition ok_engine :: engine where
  "ok_engine = \<lparr>
     e_launch = (\<lambda>h. Returns ()),
     e_pages = (\<lambda>h. Returns [0]),
     e_newPage = (\<lambda>h. Returns (length h)),
     e_goto = (\<lambda>h p u. Returns ()),
     e_content = (\<lambda>h p. Returns ''<html></html>''),
     e_click = (\<lambda>h p s. Returns ()),
     e_type = (\<lambda>h p s t d. Returns ()),
     e_keyboard_type = (\<lambda>h p t. Returns ()),
     e_keyboard_press = (\<lambda>h p k. Returns ()),
     e_mouse_click = (\<lambda>h p a c. Returns ()),
     e_mouse_move = (\<lambda>h p a c. Returns ()),
     e_screenshot = (\<lambda>h p. Returns ''iVBORw0KGgo=''),
     e_evaluate = (\<lambda>h p. Returns (JArray [])),
     e_snapshot = (\<lambda>h p. Returns (Some node_A)) \<rparr>"

definition failing_engine :: engine where
  "failing_engine = \<lparr>
     e_launch = (\<lambda>h. Throws),
     e_pages = (\<lambda>h. Throws),
     e_newPage = (\<lambda>h. Throws),
     e_goto = (\<lambda>h p u. Throws),
     e_content = (\<lambda>h p. Throws),
     e_click = (\<lambda>h p s. Throws),
     e_type = (\<lambda>h p s t d. Throws),
     e_keyboard_type = (\<lambda>h p t. Throws),
     e_keyboard_press = (\<lambda>h p k. Throws),
     e_mouse_click = (\<lambda>h p a c. Throws),
     e_mouse_move = (\<lambda>h p a c. Throws),
     e_screenshot = (\<lambda>h p. Throws),
     e_evaluate = (\<lambda>h p. Throws),
     e_snapshot = (\<lambda>h p. Throws) \<rparr>"

text \<open>
  The state before the start-up task has run, and the state it leaves on the engine
  that succeeds: \<open>default\<close> bound to page 0.
\<close>

definition cold :: world where
  "cold = \<lparr> openPages = Map.empty, browser = False, calls = [],
            outbox = [], unhandled = 0, socket_open = False \<rparr>"

definition started :: world where
  "started = \<lparr> openPages = [''default'' \<mapsto> 0], browser = True, calls = [Launch, Pages],
               outbox = [], unhandled = 0, socket_open = False \<rparr>"

definition mk_request :: "string \<Rightarrow> string \<Rightarrow> request" where
  "mk_request m pid = \<lparr> req_message = m, req_pageId = pid, req_selector = [],
     req_text = [], req_url = [], req_x = 0, req_y = 0,
     req_enter = None, req_click = None \<rparr>"

text \<open>A decoder for the fixtures: two texts decode, every other text fails.\<close>

definition fake_parse :: "string \<Rightarrow> request outcome" where
  "fake_parse data =
     (if data = ''get_html default'' then Returns (mk_request ''get_html'' ''default'')
      else if data = ''click default'' then Returns (mk_request ''click'' ''default'')
      else Throws)"

section \<open>Properties of the flattening\<close>

lemma fold_recurseChildren_filter:
  assumes "\<And>c acc. c \<in> set cs \<Longrightarrow>
            recurseChildren c acc = acc @ filter has_children_field (preorder c)"
  shows "fold recurseChildren cs acc =
           acc @ filter has_children_field (concat (map preorder cs))"
  using assms by (induction cs arbitrary: acc) simp_all

lemma recurseChildren_filter:
  "recurseChildren n acc = acc @ filter has_children_field (preorder n)"
proof (induction n acc rule: recurseChildren.induct)
  case (1 l items)
  show ?case by simp
next
  case (2 l cs items)
  have "fold recurseChildren cs (items @ [AXNode l (Some cs)]) =
          (items @ [AXNode l (Some cs)]) @ filter has_children_field (concat (map preorder cs))"
    by (rule fold_recurseChildren_filter) (rule "2.IH")
  then show ?case by simp
qed

lemma preorder_synthetic:
  "preorder node_A = [node_A, node_B, node_C, node_D]"
  by (simp add: node_A_def node_B_def node_C_def node_D_def)

lemma has_a_child_synthetic:
  "has_a_child node_A" "\<not> has_a_child node_B" "has_a_child node_C" "\<not> has_a_child node_D"
  by (simp_all add: node_A_def node_B_def node_C_def node_D_def)

lemma recurseChildren_synthetic:
  "recurseChildren node_A [] = [node_A, node_B, node_C]"
  by (simp add: node_A_def node_B_def node_C_def node_D_def)

section \<open>Shared facts about the handlers and the dispatcher\<close>

lemmas handler_defs =
  observe_def getInteractiveElements_def typeText_def getScreenshot_def createPage_def
  navigate_def getHtml_def click_def inputText_def moveMouse_def

lemma messageSwitch_unresolved:
  "lookup (openPages st) (req_pageId req) = None \<Longrightarrow>
   messageSwitch eng req st =
     (Returns (error_payload ''Page with requested pageId not found''), st)"
  by (simp add: messageSwitch_def)

lemma lookup_own: "m k = Some p \<Longrightarrow> lookup m k = Some (PageV p)"
  by (simp add: lookup_def)

lemma handlers_keep_registry:
  "openPages (snd (observe eng req st)) = openPages st"
  "openPages (snd (getInteractiveElements eng req st)) = openPages st"
  "openPages (snd (typeText eng req st)) = openPages st"
  "openPages (snd (getScreenshot eng req st)) = openPages st"
  "openPages (snd (navigate eng req st)) = openPages st"
  "openPages (snd (getHtml eng req st)) = openPages st"
  "openPages (snd (click eng req st)) = openPages st"
  "openPages (snd (inputText eng req st)) = openPages st"
  "openPages (snd (moveMouse eng req st)) = openPages st"
  by (simp_all add: handler_defs log_call_def Let_def
      split: option.splits jsvalue.splits outcome.splits)

lemma createPage_bound:
  "lookup (openPages st) (req_pageId req) = Some v \<Longrightarrow>
   createPage eng req st = (Returns (error_payload ''Page already exists''), st)"
  by (simp add: createPage_def)

lemma createPage_extends:
  "openPages st \<subseteq>\<^sub>m openPages (snd (createPage eng req st))"
  by (auto simp: createPage_def log_call_def lookup_def map_le_def
      split: option.splits outcome.splits if_splits)

lemma messageSwitch_keeps_registry:
  "openPages (snd (messageSwitch eng req st)) = openPages st"
  by (cases "lookup (openPages st) (req_pageId req)")
     (simp_all add: messageSwitch_def handlers_keep_registry createPage_bound)

lemma dispatch_all_keeps_registry:
  "openPages (dispatch_all eng reqs st) = openPages st"
  unfolding dispatch_all_def
  by (induction reqs arbitrary: st) (simp_all add: messageSwitch_keeps_registry)

lemma handlers_frame:
  "observe eng req (st\<lparr>outbox := ob\<rparr>) =
     (fst (observe eng req st), (snd (observe eng req st))\<lparr>outbox := ob\<rparr>)"
  "getInteractiveElements eng req (st\<lparr>outbox := ob\<rparr>) =
     (fst (getInteractiveElements eng req st),
      (snd (getInteractiveElements eng req st))\<lparr>outbox := ob\<rparr>)"
  "typeText eng req (st\<lparr>outbox := ob\<rparr>) =
     (fst (typeText eng req st), (snd (typeText eng req st))\<lparr>outbox := ob\<rparr>)"
  "getScreenshot eng req (st\<lparr>outbox := ob\<rparr>) =
     (fst (getScreenshot eng req st), (snd (getScreenshot eng req st))\<lparr>outbox := ob\<rparr>)"
  "createPage eng req (st\<lparr>outbox := ob\<rparr>) =
     (fst (createPage eng req st), (snd (createPage eng req st))\<lparr>outbox := ob\<rparr>)"
  "navigate eng req (st\<lparr>outbox := ob\<rparr>) =
     (fst (navigate eng req st), (snd (navigate eng req st))\<lparr>outbox := ob\<rparr>)"
  "getHtml eng req (st\<lparr>outbox := ob\<rparr>) =
     (fst (getHtml eng req st), (snd (getHtml eng req st))\<lparr>outbox := ob\<rparr>)"
  "click eng req (st\<lparr>outbox := ob\<rparr>) =
     (fst (click eng req st), (snd (click eng req st))\<lparr>outbox := ob\<rparr>)"
  "inputText eng req (st\<lparr>outbox := ob\<rparr>) =
     (fst (inputText eng req st), (snd (inputText eng req st))\<lparr>outbox := ob\<rparr>)"
  "moveMouse eng req (st\<lparr>outbox := ob\<rparr>) =
     (fst (moveMouse eng req st), (snd (moveMouse eng req st))\<lparr>outbox := ob\<rparr>)"
  by (simp_all add: handler_defs log_call_def Let_def
      split: option.splits jsvalue.splits outcome.splits)

lemma messageSwitch_frame:
  "messageSwitch eng req (st\<lparr>outbox := ob\<rparr>) =
     (fst (messageSwitch eng req st), (snd (messageSwitch eng req st))\<lparr>outbox := ob\<rparr>)"
  by (cases "lookup (openPages st) (req_pageId req)")
     (simp_all add: messageSwitch_def handlers_frame)

lemma handlers_keep_outbox:
  "outbox (snd (observe eng req st)) = outbox st"
  "outbox (snd (getInteractiveElements eng req st)) = outbox st"
  "outbox (snd (typeText eng req st)) = outbox st"
  "outbox (snd (getScreenshot eng req st)) = outbox st"
  "outbox (snd (createPage eng req st)) = outbox st"
  "outbox (snd (navigate eng req st)) = outbox st"
  "outbox (snd (getHtml eng req st)) = outbox st"
  "outbox (snd (click eng req st)) = outbox st"
  "outbox (snd (inputText eng req st)) = outbox st"
  "outbox (snd (moveMouse eng req st)) = outbox st"
  by (simp_all add: handler_defs log_call_def Let_def
      split: option.splits jsvalue.splits outcome.splits)

lemma messageSwitch_keeps_outbox:
  "outbox (snd (messageSwitch eng req st)) = outbox st"
  by (cases "lookup (openPages st) (req_pageId req)")
     (simp_all add: messageSwitch_def handlers_keep_outbox)

lemma handlers_keep_socket:
  "socket_open (snd (observe eng req st)) = socket_open st"
  "socket_open (snd (getInteractiveElements eng req st)) = socket_open st"
  "socket_open (snd (typeText eng req st)) = socket_open st"
  "socket_open (snd (getScreenshot eng req st)) = socket_open st"
  "socket_open (snd (createPage eng req st)) = socket_open st"
  "socket_open (snd (navigate eng req st)) = socket_open st"
  "socket_open (snd (getHtml eng req st)) = socket_open st"
  "socket_open (snd (click eng req st)) = socket_open st"
  "socket_open (snd (inputText eng req st)) = socket_open st"
  "socket_open (snd (moveMouse eng req st)) = socket_open st"
  by (simp_all add: handler_defs log_call_def Let_def
      split: option.splits jsvalue.splits outcome.splits)

lemma messageSwitch_keeps_socket:
  "socket_open (snd (messageSwitch eng req st)) = socket_open st"
  by (cases "lookup (openPages st) (req_pageId req)")
     (simp_all add: messageSwitch_def handlers_keep_socket)

lemma on_message_outbox:
  "\<exists>frames. outbox (on_message JSON_parse eng data st) = outbox st @ frames"
proof (cases "JSON_parse data")
  case Throws
  then show ?thesis by (simp add: on_message_def send_def)
next
  case (Returns req)
  obtain res st' where sw: "messageSwitch eng req st = (res, st')"
    by (cases "messageSwitch eng req st")
  have "outbox st' = outbox st"
    using messageSwitch_keeps_outbox [of eng req st] sw by simp
  then show ?thesis
    using Returns sw by (cases res) (simp_all add: on_message_def send_def)
qed

section \<open>The specified properties\<close>

text \<open>
  C3 (as stated, refuted). The claim has \<open>observe\<close> include a node if and only if it
  has at least one child, and gives \<open>[A, C]\<close> for the synthetic tree
  \<open>A(children=[B(children=[]), C(children=[D])])\<close>. On that tree the program returns
  \<open>[A, B, C]\<close>: \<open>B\<close> carries the field \<open>children\<close>, holding the empty array, an
  empty array is truthy, and the guard lets \<open>B\<close> through although it has no child.
\<close>

theorem observe_flatten_counterexample:
  "fst (observe ok_engine (mk_request ''observe'' ''default'') started) =
     Returns (JObject [(''snapshot'', JArray [JNode node_A, JNode node_B, JNode node_C])])
   \<and> fst (observe ok_engine (mk_request ''observe'' ''default'') started) \<noteq>
     Returns (JObject [(''snapshot'', JArray [JNode node_A, JNode node_C])])
   \<and> children node_B = Some []
   \<and> \<not> has_a_child node_B
   \<and> node_B \<in> set (recurseChildren node_A [])
   \<and> filter has_a_child (preorder node_A) = [node_A, node_C]"
  by (simp add: observe_def lookup_def started_def mk_request_def ok_engine_def
      recurseChildren_synthetic preorder_synthetic has_a_child_synthetic node_B_def)

text \<open>
  C3 (amended). For a page bound in the registry and a snapshot returned by the engine,
  \<open>observe\<close> answers \<open>{snapshot: items}\<close> where \<open>items\<close> are the nodes of the tree
  that carry the field \<open>children\<close> (empty or not), in pre-order: parent before children,
  children left to right. The engine is called once, for the snapshot.
\<close>

theorem observe_flatten:
  assumes "lookup (openPages st) (req_pageId req) = Some (PageV p)"
    and "e_snapshot eng (calls st) p = Returns (Some snap)"
  shows "observe eng req st =
           (Returns (JObject [(''snapshot'',
              JArray (map JNode (filter has_children_field (preorder snap))))]),
            log_call (AXSnapshot p) st)"
  using assms by (simp add: observe_def recurseChildren_filter)

theorem observe_flatten_witness:
  "lookup (openPages started) (req_pageId (mk_request ''observe'' ''default'')) = Some (PageV 0)
   \<and> e_snapshot ok_engine (calls started) 0 = Returns (Some node_A)
   \<and> observe ok_engine (mk_request ''observe'' ''default'') started =
       (Returns (JObject [(''snapshot'', JArray [JNode node_A, JNode node_B, JNode node_C])]),
        log_call (AXSnapshot 0) started)"
proof -
  have h1: "lookup (openPages started) (req_pageId (mk_request ''observe'' ''default'')) =
              Some (PageV 0)"
    by (simp add: lookup_def started_def mk_request_def)
  have h2: "e_snapshot ok_engine (calls started) 0 = Returns (Some node_A)"
    by (simp add: ok_engine_def)
  have "filter has_children_field (preorder node_A) = [node_A, node_B, node_C]"
    by (simp add: node_A_def node_B_def node_C_def node_D_def)
  with observe_flatten [OF h1 h2] h1 h2 show ?thesis by simp
qed

text \<open>
  C1 (the program at a fresh identifier). The claim has the dispatcher exempt
  \<open>create_page\<close> from page resolution, so that a fresh identifier is bound to a new
  page. \<open>messageSwitch\<close> resolves the identifier before the \<open>switch\<close> for every
  request: with \<open>p1\<close> unbound, \<open>create_page\<close> is answered with the missing-page
  error, no page is created and nothing is bound, the first time and the second. The
  handler itself, called on the same state, does create and bind the page.
\<close>

theorem create_page_fresh_identifier:
  "lookup (openPages started) ''p1'' = None
   \<and> messageSwitch ok_engine (mk_request ''create_page'' ''p1'') started =
       (Returns (error_payload ''Page with requested pageId not found''), started)
   \<and> dispatch_all ok_engine
         [mk_request ''create_page'' ''p1'', mk_request ''create_page'' ''p1''] started = started
   \<and> fst (createPage ok_engine (mk_request ''create_page'' ''p1'') started) = Returns JUndefined
   \<and> openPages (snd (createPage ok_engine (mk_request ''create_page'' ''p1'') started)) ''p1''
       = Some 2
   \<and> calls (snd (createPage ok_engine (mk_request ''create_page'' ''p1'') started))
       = [Launch, Pages, NewPage]"
  by (simp add: messageSwitch_def dispatch_all_def createPage_def lookup_def
      object_prototype_keys_def started_def mk_request_def ok_engine_def log_call_def)

text \<open>
  C2 (the program at an identifier nobody bound). \<open>constructor\<close> is not bound in the
  registry, yet the property read finds the function every object inherits under that
  name, and the dispatcher's test lets the request through. \<open>navigate\<close> then fails on a
  value that is no page, inside its \<open>try\<close>: the reply is the navigation error, not the
  missing-page error. No engine call is made.
\<close>

theorem missing_page_inherited_name:
  "openPages started ''constructor'' = None
   \<and> messageSwitch ok_engine (mk_request ''navigate'' ''constructor'') started =
       (Returns (error_payload ''Error while navigating''), started)
   \<and> error_payload ''Error while navigating'' \<noteq>
       error_payload ''Page with requested pageId not found''"
  by (simp add: messageSwitch_def navigate_def lookup_def object_prototype_keys_def
      started_def mk_request_def error_payload_def)

text \<open>
  C4. For an identifier bound in the registry, dispatching \<open>create_page\<close> is answered
  with \<open>{error: "Page already exists"}\<close> and leaves the state as it was: no engine
  call is logged and the identifier keeps its handle.
\<close>

theorem create_page_duplicate:
  assumes "openPages st (req_pageId req) = Some p"
    and "req_message req = ''create_page''"
  shows "messageSwitch eng req st = (Returns (error_payload ''Page already exists''), st)
         \<and> calls (snd (messageSwitch eng req st)) = calls st
         \<and> openPages (snd (messageSwitch eng req st)) = openPages st
         \<and> openPages (snd (messageSwitch eng req st)) (req_pageId req) = Some p"
  using assms by (simp add: messageSwitch_def lookup_own createPage_bound)

theorem create_page_duplicate_witness:
  "openPages started (req_pageId (mk_request ''create_page'' ''default'')) = Some 0
   \<and> req_message (mk_request ''create_page'' ''default'') = ''create_page''
   \<and> messageSwitch ok_engine (mk_request ''create_page'' ''default'') started =
       (Returns (JObject [(''error'', JString ''Page already exists'')]), started)"
proof -
  have h1: "openPages started (req_pageId (mk_request ''create_page'' ''default'')) = Some 0"
    by (simp add: started_def mk_request_def)
  have h2: "req_message (mk_request ''create_page'' ''default'') = ''create_page''"
    by (simp add: mk_request_def)
  from create_page_duplicate [OF h1 h2, of ok_engine] h1 h2
  show ?thesis by (simp add: error_payload_def)
qed

text \<open>
  C6 (as stated, refuted). A request with an unknown discriminant and an identifier that
  does not resolve is answered with the missing-page error: the resolution comes before
  the \<open>switch\<close>.
\<close>

theorem unknown_discriminant_counterexample:
  "''reload'' \<notin> set known_commands
   \<and> messageSwitch ok_engine (mk_request ''reload'' ''nope'') started =
       (Returns (error_payload ''Page with requested pageId not found''), started)
   \<and> fst (messageSwitch ok_engine (mk_request ''reload'' ''nope'') started) \<noteq>
       Returns (error_payload ''No message found'')"
  by (simp add: known_commands_def messageSwitch_def lookup_def object_prototype_keys_def
      started_def mk_request_def error_payload_def)

text \<open>
  C6 (amended). For every request whose page identifier resolves and whose discriminant
  is none of the ten known commands, the dispatcher answers \<open>{error: "No message found"}\<close>
  and leaves the state as it was.
\<close>

theorem unknown_discriminant:
  assumes "lookup (openPages st) (req_pageId req) = Some v"
    and "req_message req \<notin> set known_commands"
  shows "messageSwitch eng req st = (Returns (error_payload ''No message found''), st)"
  using assms by (simp add: messageSwitch_def known_commands_def)

theorem unknown_discriminant_witness:
  "lookup (openPages started) (req_pageId (mk_request ''reload'' ''default'')) = Some (PageV 0)
   \<and> req_message (mk_request ''reload'' ''default'') \<notin> set known_commands
   \<and> messageSwitch ok_engine (mk_request ''reload'' ''default'') started =
       (Returns (JObject [(''error'', JString ''No message found'')]), started)"
proof -
  have h1: "lookup (openPages started) (req_pageId (mk_request ''reload'' ''default'')) =
              Some (PageV 0)"
    by (simp add: lookup_def started_def mk_request_def)
  have h2: "req_message (mk_request ''reload'' ''default'') \<notin> set known_commands"
    by (simp add: mk_request_def known_commands_def)
  from unknown_discriminant [OF h1 h2, of ok_engine] h1 h2
  show ?thesis by (simp add: error_payload_def)
qed

text \<open>
  C7. For a page bound in the registry, \<open>move_mouse\<close> makes exactly one engine call:
  a click at \<open>(x, y)\<close> when the click flag is \<open>true\<close>, a pointer move to \<open>(x, y)\<close>
  when the flag is omitted or \<open>false\<close>. If that call throws, the answer is
  \<open>{error: "Could not move mouse"}\<close>; otherwise the handler returns nothing.
\<close>

theorem move_mouse_click_or_move:
  assumes "openPages st (req_pageId req) = Some p"
    and "req_message req = ''move_mouse''"
  shows "messageSwitch eng req st = moveMouse eng req st
         \<and> calls (snd (moveMouse eng req st)) =
             calls st @ [if req_click req = Some True
                         then MouseClick p (req_x req) (req_y req)
                         else MouseMove p (req_x req) (req_y req)]
         \<and> fst (moveMouse eng req st) =
             (if (if req_click req = Some True
                  then e_mouse_click eng (calls st) p (req_x req) (req_y req)
                  else e_mouse_move eng (calls st) p (req_x req) (req_y req)) = Throws
              then Returns (error_payload ''Could not move mouse'')
              else Returns JUndefined)"
  using assms
  by (simp add: messageSwitch_def moveMouse_def lookup_own truthy_def log_call_def
      split: outcome.splits)

theorem move_mouse_click_or_move_witness:
  "openPages started (req_pageId (mk_request ''move_mouse'' ''default'')) = Some 0
   \<and> req_message (mk_request ''move_mouse'' ''default'') = ''move_mouse''
   \<and> messageSwitch ok_engine
        ((mk_request ''move_mouse'' ''default'')\<lparr>req_x := 3, req_y := 4, req_click := Some True\<rparr>)
        started =
       (Returns JUndefined, started\<lparr>calls := [Launch, Pages, MouseClick 0 3 4]\<rparr>)
   \<and> messageSwitch ok_engine
        ((mk_request ''move_mouse'' ''default'')\<lparr>req_x := 3, req_y := 4\<rparr>) started =
       (Returns JUndefined, started\<lparr>calls := [Launch, Pages, MouseMove 0 3 4]\<rparr>)
   \<and> messageSwitch failing_engine
        ((mk_request ''move_mouse'' ''default'')\<lparr>req_x := 3, req_y := 4, req_click := Some False\<rparr>)
        started =
       (Returns (JObject [(''error'', JString ''Could not move mouse'')]),
        started\<lparr>calls := [Launch, Pages, MouseMove 0 3 4]\<rparr>)"
proof -
  have h1: "openPages started (req_pageId (mk_request ''move_mouse'' ''default'')) = Some 0"
    by (simp add: started_def mk_request_def)
  have h2: "req_message (mk_request ''move_mouse'' ''default'') = ''move_mouse''"
    by (simp add: mk_request_def)
  have g1: "openPages started (req_pageId ((mk_request ''move_mouse'' ''default'')
              \<lparr>req_x := 3, req_y := 4, req_click := Some True\<rparr>)) = Some 0"
    by (simp add: started_def mk_request_def)
  have g2: "req_message ((mk_request ''move_mouse'' ''default'')
              \<lparr>req_x := 3, req_y := 4, req_click := Some True\<rparr>) = ''move_mouse''"
    by (simp add: mk_request_def)
  have c: "messageSwitch ok_engine
        ((mk_request ''move_mouse'' ''default'')\<lparr>req_x := 3, req_y := 4, req_click := Some True\<rparr>)
        started =
       (Returns JUndefined, started\<lparr>calls := [Launch, Pages, MouseClick 0 3 4]\<rparr>)"
    using move_mouse_click_or_move [OF g1 g2, of ok_engine]
    by (simp add: moveMouse_def lookup_def started_def mk_request_def ok_engine_def
        truthy_def log_call_def)
  have m: "messageSwitch ok_engine
        ((mk_request ''move_mouse'' ''default'')\<lparr>req_x := 3, req_y := 4\<rparr>) started =
       (Returns JUndefined, started\<lparr>calls := [Launch, Pages, MouseMove 0 3 4]\<rparr>)"
    by (simp add: messageSwitch_def moveMouse_def lookup_def started_def mk_request_def
        ok_engine_def truthy_def log_call_def)
  have f: "messageSwitch failing_engine
        ((mk_request ''move_mouse'' ''default'')\<lparr>req_x := 3, req_y := 4, req_click := Some False\<rparr>)
        started =
       (Returns (JObject [(''error'', JString ''Could not move mouse'')]),
        started\<lparr>calls := [Launch, Pages, MouseMove 0 3 4]\<rparr>)"
    by (simp add: messageSwitch_def moveMouse_def lookup_def started_def mk_request_def
        failing_engine_def truthy_def log_call_def error_payload_def)
  from h1 h2 c m f show ?thesis by simp
qed

text \<open>
  C8. For a page bound in the registry, \<open>get_html\<close> calls the engine's content
  serialisation once. If the call returns, the handler's result is the HTML string
  itself, not an object around it. If the call fails, the failure is the handler's
  outcome: the promise is rejected, no error payload is made of it, and the socket
  handler sends no reply.
\<close>

theorem get_html_raw:
  assumes "openPages st (req_pageId req) = Some p"
    and "req_message req = ''get_html''"
  shows "messageSwitch eng req st = getHtml eng req st
         \<and> getHtml eng req st =
             (case e_content eng (calls st) p of
                Returns html \<Rightarrow> Returns (JString html)
              | Throws \<Rightarrow> Throws,
              log_call (Content p) st)
         \<and> outbox (on_message (\<lambda>data. Returns req) eng data st) =
             (case e_content eng (calls st) p of
                Returns html \<Rightarrow> outbox st @ [JString html]
              | Throws \<Rightarrow> outbox st)"
  using assms
  by (simp add: messageSwitch_def getHtml_def lookup_own on_message_def send_def log_call_def
      split: outcome.splits)

theorem get_html_raw_witness:
  "openPages started (req_pageId (mk_request ''get_html'' ''default'')) = Some 0
   \<and> req_message (mk_request ''get_html'' ''default'') = ''get_html''
   \<and> messageSwitch ok_engine (mk_request ''get_html'' ''default'') started =
       (Returns (JString ''<html></html>''), started\<lparr>calls := [Launch, Pages, Content 0]\<rparr>)
   \<and> messageSwitch failing_engine (mk_request ''get_html'' ''default'') started =
       (Throws, started\<lparr>calls := [Launch, Pages, Content 0]\<rparr>)"
proof -
  have h1: "openPages started (req_pageId (mk_request ''get_html'' ''default'')) = Some 0"
    by (simp add: started_def mk_request_def)
  have h2: "req_message (mk_request ''get_html'' ''default'') = ''get_html''"
    by (simp add: mk_request_def)
  have a: "messageSwitch ok_engine (mk_request ''get_html'' ''default'') started =
       (Returns (JString ''<html></html>''), started\<lparr>calls := [Launch, Pages, Content 0]\<rparr>)"
    using get_html_raw [OF h1 h2, of ok_engine]
    by (simp add: ok_engine_def log_call_def started_def)
  have b: "messageSwitch failing_engine (mk_request ''get_html'' ''default'') started =
       (Throws, started\<lparr>calls := [Launch, Pages, Content 0]\<rparr>)"
    using get_html_raw [OF h1 h2, of failing_engine]
    by (simp add: failing_engine_def log_call_def started_def)
  from h1 h2 a b show ?thesis by simp
qed

text \<open>
  C5. For a text that fails to decode, the socket handler sends exactly
  \<open>{error: "Error while parsing JSON"}\<close> and changes nothing else: the socket stays
  open, no engine call is made, the registry is as before. A text that comes next on the
  connection and decodes to a request is dispatched: when the dispatch of that request
  from the state before the malformed text answers \<open>res\<close>, the frames sent are the parse
  error and then \<open>res\<close>, and registry and engine log are those the dispatch leaves, as
  they are without the malformed text. Whatever text comes next is handled as it would
  have been without the malformed one.
\<close>

theorem malformed_text:
  assumes "JSON_parse bad = Throws"
  shows "on_message JSON_parse eng bad st =
           st\<lparr>outbox := outbox st @ [JObject [(''error'', JString ''Error while parsing JSON'')]]\<rparr>
         \<and> socket_open (on_message JSON_parse eng bad st) = socket_open st
         \<and> (\<forall>req res st'.
               JSON_parse later = Returns req \<longrightarrow>
               messageSwitch eng req st = (Returns res, st') \<longrightarrow>
                 on_message JSON_parse eng later (on_message JSON_parse eng bad st) =
                   st'\<lparr>outbox := outbox st @
                         [JObject [(''error'', JString ''Error while parsing JSON'')], res]\<rparr>
                 \<and> on_message JSON_parse eng later st = st'\<lparr>outbox := outbox st @ [res]\<rparr>
                 \<and> socket_open
                     (on_message JSON_parse eng later (on_message JSON_parse eng bad st)) =
                     socket_open st)
         \<and> on_message JSON_parse eng later (on_message JSON_parse eng bad st) =
             (on_message JSON_parse eng later st)
               \<lparr>outbox := outbox st @ [JObject [(''error'', JString ''Error while parsing JSON'')]]
                    @ drop (length (outbox st)) (outbox (on_message JSON_parse eng later st))\<rparr>"
proof -
  let ?err = "JObject [(''error'', JString ''Error while parsing JSON'')]"
  have bad: "on_message JSON_parse eng bad st = st\<lparr>outbox := outbox st @ [?err]\<rparr>"
    using assms by (simp add: on_message_def send_def error_payload_def)
  have nxt: "on_message JSON_parse eng later (st\<lparr>outbox := outbox st @ [?err]\<rparr>) =
             (on_message JSON_parse eng later st)
               \<lparr>outbox := outbox st @ [?err]
                    @ drop (length (outbox st)) (outbox (on_message JSON_parse eng later st))\<rparr>"
  proof (cases "JSON_parse later")
    case Throws
    then show ?thesis by (simp add: on_message_def send_def)
  next
    case (Returns req)
    obtain res st' where sw: "messageSwitch eng req st = (res, st')"
      by (cases "messageSwitch eng req st")
    have ob: "outbox st' = outbox st"
      using messageSwitch_keeps_outbox [of eng req st] sw by simp
    show ?thesis
      using Returns sw ob
      by (cases res) (simp_all add: on_message_def send_def messageSwitch_frame)
  qed
  have valid: "on_message JSON_parse eng later (st\<lparr>outbox := outbox st @ [?err]\<rparr>) =
                 st'\<lparr>outbox := outbox st @ [?err, res]\<rparr>
               \<and> on_message JSON_parse eng later st = st'\<lparr>outbox := outbox st @ [res]\<rparr>
               \<and> socket_open (on_message JSON_parse eng later
                     (st\<lparr>outbox := outbox st @ [?err]\<rparr>)) = socket_open st"
    if dec: "JSON_parse later = Returns req"
      and sw: "messageSwitch eng req st = (Returns res, st')"
    for req res st'
  proof -
    have ob: "outbox st' = outbox st"
      using messageSwitch_keeps_outbox [of eng req st] sw by simp
    have so: "socket_open st' = socket_open st"
      using messageSwitch_keeps_socket [of eng req st] sw by simp
    show ?thesis
      using dec sw ob so
      by (simp add: on_message_def send_def messageSwitch_frame)
  qed
  have c2: "socket_open (on_message JSON_parse eng bad st) = socket_open st"
    unfolding bad by simp
  have c3: "\<forall>req res st'.
               JSON_parse later = Returns req \<longrightarrow>
               messageSwitch eng req st = (Returns res, st') \<longrightarrow>
                 on_message JSON_parse eng later (on_message JSON_parse eng bad st) =
                   st'\<lparr>outbox := outbox st @ [?err, res]\<rparr>
                 \<and> on_message JSON_parse eng later st = st'\<lparr>outbox := outbox st @ [res]\<rparr>
                 \<and> socket_open
                     (on_message JSON_parse eng later (on_message JSON_parse eng bad st)) =
                     socket_open st"
    unfolding bad using valid by blast
  have c4: "on_message JSON_parse eng later (on_message JSON_parse eng bad st) =
             (on_message JSON_parse eng later st)
               \<lparr>outbox := outbox st @ [?err]
                    @ drop (length (outbox st)) (outbox (on_message JSON_parse eng later st))\<rparr>"
    unfolding bad by (rule nxt)
  from bad c2 c3 c4 show ?thesis by blast
qed

theorem malformed_text_witness:
  "fake_parse ''not json'' = Throws
   \<and> fake_parse ''get_html default'' = Returns (mk_request ''get_html'' ''default'')
   \<and> messageSwitch ok_engine (mk_request ''get_html'' ''default'') (on_connection started) =
       (Returns (JString ''<html></html>''),
        started\<lparr>calls := [Launch, Pages, Content 0],
                 outbox := [browser_status ''up''], socket_open := True\<rparr>)
   \<and> on_message fake_parse ok_engine ''not json'' (on_connection started) =
       started\<lparr>outbox := [browser_status ''up'',
                             JObject [(''error'', JString ''Error while parsing JSON'')]],
                socket_open := True\<rparr>
   \<and> on_message fake_parse ok_engine ''get_html default''
         (on_message fake_parse ok_engine ''not json'' (on_connection started)) =
       started\<lparr>calls := [Launch, Pages, Content 0],
                outbox := [browser_status ''up'',
                           JObject [(''error'', JString ''Error while parsing JSON'')],
                           JString ''<html></html>''],
                socket_open := True\<rparr>"
proof -
  have h: "fake_parse ''not json'' = Throws"
    by (simp add: fake_parse_def)
  have d: "fake_parse ''get_html default'' = Returns (mk_request ''get_html'' ''default'')"
    by (simp add: fake_parse_def)
  have c: "on_connection started =
             started\<lparr>outbox := [browser_status ''up''], socket_open := True\<rparr>"
    by (simp add: on_connection_def send_def started_def)
  have sw: "messageSwitch ok_engine (mk_request ''get_html'' ''default'') (on_connection started) =
       (Returns (JString ''<html></html>''),
        started\<lparr>calls := [Launch, Pages, Content 0],
                 outbox := [browser_status ''up''], socket_open := True\<rparr>)"
    unfolding c
    by (simp add: messageSwitch_def getHtml_def lookup_def started_def mk_request_def
        ok_engine_def log_call_def)
  have ob: "outbox (on_connection started) = [browser_status ''up'']"
    unfolding c by simp
  note R = malformed_text [where JSON_parse = fake_parse and bad = "''not json''"
      and eng = ok_engine and st = "on_connection started" and later = "''get_html default''",
      OF h]
  have r1: "on_message fake_parse ok_engine ''not json'' (on_connection started) =
       started\<lparr>outbox := [browser_status ''up'',
                             JObject [(''error'', JString ''Error while parsing JSON'')]],
                socket_open := True\<rparr>"
    by (subst conjunct1 [OF R]) (simp add: c)
  from conjunct1 [OF conjunct2 [OF conjunct2 [OF R]]] d sw
  have "on_message fake_parse ok_engine ''get_html default''
         (on_message fake_parse ok_engine ''not json'' (on_connection started)) =
        (started\<lparr>calls := [Launch, Pages, Content 0],
                 outbox := [browser_status ''up''], socket_open := True\<rparr>)
          \<lparr>outbox := outbox (on_connection started) @
             [JObject [(''error'', JString ''Error while parsing JSON'')],
              JString ''<html></html>'']\<rparr>"
    by blast
  then have r3: "on_message fake_parse ok_engine ''get_html default''
         (on_message fake_parse ok_engine ''not json'' (on_connection started)) =
       started\<lparr>calls := [Launch, Pages, Content 0],
                outbox := [browser_status ''up'',
                           JObject [(''error'', JString ''Error while parsing JSON'')],
                           JString ''<html></html>''],
                socket_open := True\<rparr>"
    by (simp add: ob)
  from h d sw r1 r3 show ?thesis by blast
qed

text \<open>
  C9. A binding of the registry is never removed or replaced: after any sequence of
  dispatched requests an identifier bound to a handle is bound to the same handle, and
  \<open>createPage\<close>, the one handler that writes to the registry, writes only where the
  property read found nothing. Every request other than \<open>create_page\<close> leaves the
  registry as it was, and the start-up task writes the identifier \<open>default\<close> alone.
\<close>

theorem registry_monotone:
  assumes "openPages st pid = Some p"
  shows "openPages (dispatch_all eng reqs st) pid = Some p
         \<and> openPages (snd (createPage eng req st)) pid = Some p
         \<and> (req_message req \<noteq> ''create_page'' \<longrightarrow>
              openPages (snd (messageSwitch eng req st)) = openPages st)
         \<and> (\<forall>s s' k. startup eng s = Returns s' \<longrightarrow> k \<noteq> ''default'' \<longrightarrow>
              openPages s' k = openPages s k)"
proof -
  have a: "openPages (dispatch_all eng reqs st) pid = Some p"
    using assms by (simp add: dispatch_all_keeps_registry)
  have b: "openPages (snd (createPage eng req st)) pid = Some p"
    using createPage_extends [of st eng req] assms
    by (auto simp: map_le_def dom_def)
  have c: "openPages (snd (messageSwitch eng req st)) = openPages st"
    by (rule messageSwitch_keeps_registry)
  have d: "\<forall>s s' k. startup eng s = Returns s' \<longrightarrow> k \<noteq> ''default'' \<longrightarrow>
              openPages s' k = openPages s k"
    by (auto simp: startup_def log_call_def Let_def split: outcome.splits list.splits)
  from a b c d show ?thesis by simp
qed

theorem registry_monotone_witness:
  "openPages started ''default'' = Some 0
   \<and> openPages (dispatch_all ok_engine
        [mk_request ''create_page'' ''default'', mk_request ''navigate'' ''default'',
         mk_request ''create_page'' ''tab2''] started) ''default'' = Some 0
   \<and> openPages (snd (createPage ok_engine (mk_request ''create_page'' ''tab2'') started))
        ''default'' = Some 0
   \<and> req_message (mk_request ''navigate'' ''default'') \<noteq> ''create_page''
   \<and> openPages (snd (messageSwitch ok_engine (mk_request ''navigate'' ''default'') started)) =
       openPages started
   \<and> startup ok_engine cold = Returns started
   \<and> ''tab2'' \<noteq> ''default''
   \<and> openPages started ''tab2'' = openPages cold ''tab2''"
proof -
  have h: "openPages started ''default'' = Some 0"
    by (simp add: started_def)
  have n: "req_message (mk_request ''navigate'' ''default'') \<noteq> ''create_page''"
    by (simp add: mk_request_def)
  have s: "startup ok_engine cold = Returns started"
    by (simp add: startup_def cold_def started_def ok_engine_def log_call_def)
  have t: "openPages started ''tab2'' = openPages cold ''tab2''"
    by (simp add: started_def cold_def)
  from registry_monotone [OF h, of ok_engine _ "mk_request ''create_page'' ''tab2''"]
       registry_monotone [OF h, of ok_engine "[]" "mk_request ''navigate'' ''default''"]
       h n s t
  show ?thesis by simp
qed

text \<open>
  C10. On a new connection the first value the server sends is the status object: its
  discriminant sits under the key \<open>messge\<close> with value \<open>browser_status\<close>, and its
  \<open>status\<close> is \<open>up\<close> when the browser variable has been assigned and \<open>down\<close>
  otherwise. The object has no key \<open>message\<close>. Whatever messages follow on the
  connection, this object stays the first one sent.
\<close>

theorem connection_status_first:
  "outbox (on_connection st) =
     [JObject [(''messge'', JString ''browser_status''),
               (''status'', JString (if browser st then ''up'' else ''down''))]]
   \<and> member (hd (outbox (on_connection st))) ''messge'' = Some (JString ''browser_status'')
   \<and> member (hd (outbox (on_connection st))) ''message'' = None
   \<and> hd (outbox (fold (on_message JSON_parse eng) datas (on_connection st))) =
       JObject [(''messge'', JString ''browser_status''),
                (''status'', JString (if browser st then ''up'' else ''down''))]"
proof -
  let ?status = "JObject [(''messge'', JString ''browser_status''),
                          (''status'', JString (if browser st then ''up'' else ''down''))]"
  have first: "outbox (on_connection st) = [?status]"
    by (simp add: on_connection_def send_def browser_status_def)
  have keep: "\<And>s. outbox s \<noteq> [] \<Longrightarrow>
                outbox (fold (on_message JSON_parse eng) datas s) \<noteq> []
                \<and> hd (outbox (fold (on_message JSON_parse eng) datas s)) = hd (outbox s)"
  proof (induction datas)
    case Nil
    then show ?case by simp
  next
    case (Cons d ds)
    obtain frames where fr: "outbox (on_message JSON_parse eng d s) = outbox s @ frames"
      using on_message_outbox by blast
    with Cons.prems have "outbox (on_message JSON_parse eng d s) \<noteq> []"
      and "hd (outbox (on_message JSON_parse eng d s)) = hd (outbox s)"
      by simp_all
    with Cons.IH [of "on_message JSON_parse eng d s"] show ?case by simp
  qed
  from first keep [of "on_connection st"] show ?thesis by simp
qed

theorem connection_status_first_witness:
  "outbox (on_connection cold) =
     [JObject [(''messge'', JString ''browser_status''), (''status'', JString ''down'')]]
   \<and> outbox (on_connection started) =
     [JObject [(''messge'', JString ''browser_status''), (''status'', JString ''up'')]]
   \<and> member (hd (outbox (on_connection started))) ''message'' = None"
  using connection_status_first [of cold] connection_status_first [of started]
  by (simp add: cold_def started_def)

end
